theory Spec2Isabelle
  imports Main "HOL-Library.Sublist"
begin

section \<open>Python strings\<close>

text \<open>
  A Python \<^verbatim>\<open>str\<close> is a sequence of Unicode code points and \<^verbatim>\<open>len\<close> counts code
  points, so a string of the program is a list of code points here. Literals of the
  source are all ASCII and are written through \<open>str\<close>.
\<close>

type_synonym codepoint = nat
type_synonym pystr = "codepoint list"

definition str :: "string \<Rightarrow> pystr" where
  "str s = map of_char s"

definition NL :: codepoint where
  "NL = 10"

text \<open>
  The characters that \<^verbatim>\<open>str.strip()\<close> removes when it is called without an argument:
  the code points for which Python's \<^verbatim>\<open>str.isspace\<close> test of the C implementation holds.
\<close>

definition is_space :: "codepoint \<Rightarrow> bool" where
  "is_space c \<longleftrightarrow>
     (9 \<le> c \<and> c \<le> 13) \<or> (28 \<le> c \<and> c \<le> 32) \<or> c = 133 \<or> c = 160 \<or>
     c = 5760 \<or> (8192 \<le> c \<and> c \<le> 8202) \<or> c = 8232 \<or> c = 8233 \<or>
     c = 8239 \<or> c = 8287 \<or> c = 12288"

definition strip :: "pystr \<Rightarrow> pystr" where
  "strip s = rev (dropWhile is_space (rev (dropWhile is_space s)))"

section \<open>Output sanitizer\<close>

text \<open>
  \<^verbatim>\<open>re.sub(r"</?s>", "", raw_text)\<close>: one pass from left to right; where the text at the
  current position starts with \<^verbatim>\<open></s>\<close> or \<^verbatim>\<open><s>\<close> the match is dropped and the scan
  goes on behind it, otherwise the character is kept.
\<close>

function remove_s_tokens :: "pystr \<Rightarrow> pystr" where
  "remove_s_tokens [] = []"
| "remove_s_tokens (c # cs) =
     (if prefix (str ''</s>'') (c # cs) then remove_s_tokens (drop 3 cs)
      else if prefix (str ''<s>'') (c # cs) then remove_s_tokens (drop 2 cs)
      else c # remove_s_tokens cs)"
  by pat_completeness auto
termination
  by (relation "measure length") auto

text \<open>\<^verbatim>\<open>re.sub(r"\[/?INST\]", "", cleaned)\<close>, in the same way.\<close>

function remove_inst_tokens :: "pystr \<Rightarrow> pystr" where
  "remove_inst_tokens [] = []"
| "remove_inst_tokens (c # cs) =
     (if prefix (str ''[/INST]'') (c # cs) then remove_inst_tokens (drop 6 cs)
      else if prefix (str ''[INST]'') (c # cs) then remove_inst_tokens (drop 5 cs)
      else c # remove_inst_tokens cs)"
  by pat_completeness auto
termination
  by (relation "measure length") auto

text \<open>
  \<^verbatim>\<open>re.sub(r"\n{3,}", "\n\n", cleaned)\<close>: the quantifier is greedy, so a match at a
  position takes the whole run of newlines that starts there, provided the run has at
  least three of them, and two newlines are written in its place.
\<close>

definition nl_run :: "pystr \<Rightarrow> nat" where
  "nl_run s = length (takeWhile (\<lambda>c. c = NL) s)"

function collapse_newlines :: "pystr \<Rightarrow> pystr" where
  "collapse_newlines [] = []"
| "collapse_newlines (c # cs) =
     (if 3 \<le> nl_run (c # cs)
      then NL # NL # collapse_newlines (dropWhile (\<lambda>c. c = NL) cs)
      else c # collapse_newlines cs)"
  by pat_completeness auto
termination
  by (relation "measure length") (auto simp: length_dropWhile_le less_Suc_eq_le)

definition clean_llama_output :: "pystr \<Rightarrow> pystr" where
  "clean_llama_output raw_text =
     collapse_newlines (strip (remove_inst_tokens (remove_s_tokens raw_text)))"

section \<open>Prompt builder\<close>

text \<open>
  The f-string of \<^verbatim>\<open>build_prompt\<close> is the text before the placeholder, the topic, and
  the text behind it; \<^verbatim>\<open>.strip()\<close> is applied to the whole.
\<close>

definition prompt_head :: pystr where
  \<open>prompt_head = str ''\<newline><s>[INST]\<newline>You are a professional blog writer.\<newline>\<newline>Write a clear, concise, and well-structured 200-word blog post on the topic: "''\<close>

definition prompt_tail :: pystr where
  \<open>prompt_tail = str ''".\<newline>Format it using:\<newline>- A title in heading style\<newline>- Subheadings for sections\<newline>- Bullet points where applicable\<newline>Avoid repeating the prompt or adding instructional tokens. End the blog naturally.\<newline>[/INST]\<newline>''\<close>

definition build_prompt :: "pystr \<Rightarrow> pystr" where
  "build_prompt topic = strip (prompt_head @ topic @ prompt_tail)"

section \<open>Values, exceptions and the outside world\<close>

text \<open>
  The values that \<^verbatim>\<open>json.loads\<close> produces. A float is kept as its \<^verbatim>\<open>repr\<close>, which Python
  prints as \<^verbatim>\<open>0.0\<close> or \<^verbatim>\<open>-0.0\<close> exactly for the two zeros. A dict is an association list
  that is read with \<open>map_of\<close>. Python's \<^verbatim>\<open>None\<close> is \<open>JNull\<close>.
\<close>

datatype json =
    JNull
  | JBool bool
  | JInt int
  | JFloat pystr
  | JString pystr
  | JArray "json list"
  | JObject "(pystr \<times> json) list"

datatype exn =
    JSONDecodeError
  | TypeError
  | AttributeError
  | UnicodeEncodeError
  | ServiceError pystr

text \<open>Python's truth value of a decoded value, as \<^verbatim>\<open>not topic\<close> tests it.\<close>

fun truthy :: "json \<Rightarrow> bool" where
  "truthy JNull = False"
| "truthy (JBool b) = b"
| "truthy (JInt i) = (i \<noteq> 0)"
| "truthy (JFloat r) = (r \<noteq> str ''0.0'' \<and> r \<noteq> str ''-0.0'')"
| "truthy (JString s) = (s \<noteq> [])"
| "truthy (JArray xs) = (xs \<noteq> [])"
| "truthy (JObject kvs) = (kvs \<noteq> [])"

text \<open>\<^verbatim>\<open>v.get(key, default)\<close>: only a dict has the method.\<close>

fun py_get :: "json \<Rightarrow> pystr \<Rightarrow> json \<Rightarrow> exn + json" where
  "py_get (JObject kvs) key dflt = Inr (case map_of kvs key of None \<Rightarrow> dflt | Some v \<Rightarrow> v)"
| "py_get JNull key dflt = Inl AttributeError"
| "py_get (JBool b) key dflt = Inl AttributeError"
| "py_get (JInt i) key dflt = Inl AttributeError"
| "py_get (JFloat r) key dflt = Inl AttributeError"
| "py_get (JString s) key dflt = Inl AttributeError"
| "py_get (JArray xs) key dflt = Inl AttributeError"

text \<open>
  What the handler does not compute itself is a field of the environment of one
  invocation: the JSON decoder, \<^verbatim>\<open>str()\<close> of a value that is not a string, the reply of
  the Bedrock runtime to \<^verbatim>\<open>invoke_model\<close> (an exception, or the text read from the
  response body), the reply of S3 to \<^verbatim>\<open>put_object\<close> (an exception or nothing), and
  \<^verbatim>\<open>datetime.now().strftime("%Y_%m_%d_%H%M%S")\<close>.
\<close>

type_synonym byte = nat

record env =
  parse_json :: "pystr \<Rightarrow> json option"
  py_str :: "json \<Rightarrow> pystr"
  invoke_model :: "pystr \<Rightarrow> json \<Rightarrow> exn + pystr"
  put_object :: "pystr \<Rightarrow> pystr \<Rightarrow> byte list \<Rightarrow> exn option"
  timestamp :: pystr

text \<open>
  The state that outlives the invocation: the objects of the blob store, and the
  calls made to the two services, in order.
\<close>

datatype call =
    InvokeModel pystr json
  | PutObject pystr pystr "byte list"

record world =
  calls :: "call list"
  objects :: "pystr \<times> pystr \<rightharpoonup> byte list"

text \<open>\<^verbatim>\<open>json.loads(x)\<close>: a value that is not text is a \<^verbatim>\<open>TypeError\<close>.\<close>

fun json_loads :: "env \<Rightarrow> json \<Rightarrow> exn + json" where
  "json_loads e (JString s) =
     (case parse_json e s of None \<Rightarrow> Inl JSONDecodeError | Some v \<Rightarrow> Inr v)"
| "json_loads e JNull = Inl TypeError"
| "json_loads e (JBool b) = Inl TypeError"
| "json_loads e (JInt i) = Inl TypeError"
| "json_loads e (JFloat r) = Inl TypeError"
| "json_loads e (JArray xs) = Inl TypeError"
| "json_loads e (JObject kvs) = Inl TypeError"

text \<open>The placeholder of an f-string: a string as it is, any other value through \<^verbatim>\<open>str()\<close>.\<close>

fun py_format :: "env \<Rightarrow> json \<Rightarrow> pystr" where
  "py_format e (JString s) = s"
| "py_format e JNull = py_str e JNull"
| "py_format e (JBool b) = py_str e (JBool b)"
| "py_format e (JInt i) = py_str e (JInt i)"
| "py_format e (JFloat r) = py_str e (JFloat r)"
| "py_format e (JArray xs) = py_str e (JArray xs)"
| "py_format e (JObject kvs) = py_str e (JObject kvs)"

text \<open>
  \<^verbatim>\<open>content.encode("utf-8")\<close>: a surrogate code point has no encoding and raises.
\<close>

definition utf8_bytes :: "codepoint \<Rightarrow> byte list option" where
  "utf8_bytes c =
     (if c < 0x80 then Some [c]
      else if c < 0x800 then Some [0xC0 + c div 64, 0x80 + c mod 64]
      else if 0xD800 \<le> c \<and> c < 0xE000 then None
      else if c < 0x10000
        then Some [0xE0 + c div 4096, 0x80 + c div 64 mod 64, 0x80 + c mod 64]
      else if c < 0x110000
        then Some [0xF0 + c div 262144, 0x80 + c div 4096 mod 64,
                   0x80 + c div 64 mod 64, 0x80 + c mod 64]
      else None)"

fun utf8_encode :: "pystr \<Rightarrow> exn + byte list" where
  "utf8_encode [] = Inr []"
| "utf8_encode (c # cs) =
     (case utf8_bytes c of
        None \<Rightarrow> Inl UnicodeEncodeError
      | Some bs \<Rightarrow>
          (case utf8_encode cs of Inl e \<Rightarrow> Inl e | Inr rest \<Rightarrow> Inr (bs @ rest)))"

text \<open>
  \<^verbatim>\<open>json.dumps({"error": msg})\<close> for a message of printable ASCII without quote or
  backslash, as the three messages of the handler are: the default separators put a
  blank behind the colon.
\<close>

definition json_dumps_error :: "pystr \<Rightarrow> pystr" where
  \<open>json_dumps_error msg = str ''{"error": "'' @ msg @ str ''"}''\<close>

section \<open>Constants\<close>

definition S3_BUCKET :: pystr where
  "S3_BUCKET = str ''aws-bedrock-stuffs''"

definition S3_PREFIX :: pystr where
  "S3_PREFIX = str ''blog_output''"

definition MODEL_ID :: pystr where
  "MODEL_ID = str ''meta.llama3-8b-instruct-v1:0''"

definition MAX_GEN_TOKENS :: int where
  "MAX_GEN_TOKENS = 384"

section \<open>Generation\<close>

definition generation_payload :: "pystr \<Rightarrow> json" where
  "generation_payload prompt =
     JObject [(str ''prompt'', JString prompt),
              (str ''temperature'', JFloat (str ''0.7'')),
              (str ''top_p'', JFloat (str ''0.9'')),
              (str ''max_gen_len'', JInt MAX_GEN_TOKENS)]"

text \<open>
  The body of the \<^verbatim>\<open>try\<close> of \<^verbatim>\<open>generate_blog\<close>. \<^verbatim>\<open>re.sub\<close> on a value that is not a
  string is a \<^verbatim>\<open>TypeError\<close>.
\<close>

definition generate_blog_try :: "env \<Rightarrow> json \<Rightarrow> exn + pystr" where
  "generate_blog_try e payload =
     (case invoke_model e MODEL_ID payload of
        Inl x \<Rightarrow> Inl x
      | Inr response_body \<Rightarrow>
          (case json_loads e (JString response_body) of
             Inl x \<Rightarrow> Inl x
           | Inr response_json \<Rightarrow>
               (case py_get response_json (str ''generation'') (JString []) of
                  Inl x \<Rightarrow> Inl x
                | Inr (JString raw_blog) \<Rightarrow> Inr (clean_llama_output raw_blog)
                | Inr _ \<Rightarrow> Inl TypeError)))"

text \<open>
  \<^verbatim>\<open>generate_blog\<close>: the \<^verbatim>\<open>except Exception\<close> clause turns every exception of the
  body into the empty string. The logger calls of the source have no part in the
  result and are left out, here and below.
\<close>

definition generate_blog :: "env \<Rightarrow> json \<Rightarrow> world \<Rightarrow> pystr \<times> world" where
  "generate_blog e topic w =
     (let prompt = build_prompt (py_format e topic);
          payload = generation_payload prompt;
          w' = w\<lparr>calls := calls w @ [InvokeModel MODEL_ID payload]\<rparr>
      in case generate_blog_try e payload of
           Inl x \<Rightarrow> ([], w')
         | Inr blog \<Rightarrow> (blog, w'))"

section \<open>Artifact store\<close>

definition artifact_key :: "env \<Rightarrow> pystr" where
  "artifact_key e = S3_PREFIX @ str ''/'' @ timestamp e @ str ''.txt''"

text \<open>
  \<^verbatim>\<open>save_to_s3\<close>: the \<^verbatim>\<open>except\<close> clause logs and raises again, so an exception of the
  encoding or of the write is the result. A write that raised stores nothing.
\<close>

definition save_to_s3 :: "env \<Rightarrow> pystr \<Rightarrow> world \<Rightarrow> (exn + pystr) \<times> world" where
  "save_to_s3 e content w =
     (let s3_key = artifact_key e
      in case utf8_encode content of
           Inl x \<Rightarrow> (Inl x, w)
         | Inr data \<Rightarrow>
             (let w' = w\<lparr>calls := calls w @ [PutObject S3_BUCKET s3_key data]\<rparr>
              in case put_object e S3_BUCKET s3_key data of
                   Some x \<Rightarrow> (Inl x, w')
                 | None \<Rightarrow>
                     (Inr (str ''s3://'' @ S3_BUCKET @ str ''/'' @ s3_key),
                      w'\<lparr>objects := (objects w')((S3_BUCKET, s3_key) \<mapsto> data)\<rparr>)))"

section \<open>Request handler\<close>

record response =
  statusCode :: int
  headers :: "(pystr \<times> pystr) list"
  body :: pystr

definition cors_origin :: "(pystr \<times> pystr) list" where
  "cors_origin = [(str ''Access-Control-Allow-Origin'', str ''*'')]"

definition cors_full :: "(pystr \<times> pystr) list" where
  "cors_full = [(str ''Access-Control-Allow-Origin'', str ''*''),
                (str ''Access-Control-Allow-Headers'', str ''Content-Type'')]"

definition missing_topic_response :: response where
  "missing_topic_response =
     \<lparr>statusCode = 400, headers = cors_origin,
      body = json_dumps_error (str ''Missing 'topic' in request body'')\<rparr>"

definition generation_failed_response :: response where
  "generation_failed_response =
     \<lparr>statusCode = 500, headers = cors_full,
      body = json_dumps_error (str ''Blog generation failed or returned empty content.'')\<rparr>"

definition internal_error_response :: response where
  "internal_error_response =
     \<lparr>statusCode = 500, headers = cors_full,
      body = json_dumps_error (str ''Internal server error.'')\<rparr>"

definition success_response :: "pystr \<Rightarrow> response" where
  "success_response blog = \<lparr>statusCode = 200, headers = cors_full, body = blog\<rparr>"

text \<open>The body of the \<^verbatim>\<open>try\<close> of \<^verbatim>\<open>lambda_handler\<close>.\<close>

definition lambda_handler_try :: "env \<Rightarrow> json \<Rightarrow> world \<Rightarrow> (exn + response) \<times> world" where
  "lambda_handler_try e event w =
     (case py_get event (str ''body'') (JString (str ''{}'')) of
        Inl x \<Rightarrow> (Inl x, w)
      | Inr raw_body \<Rightarrow>
          (case json_loads e raw_body of
             Inl x \<Rightarrow> (Inl x, w)
           | Inr parsed_body \<Rightarrow>
               (case py_get parsed_body (str ''topic'') JNull of
                  Inl x \<Rightarrow> (Inl x, w)
                | Inr topic \<Rightarrow>
                    if \<not> truthy topic then (Inr missing_topic_response, w)
                    else
                      (case generate_blog e topic w of
                         (blog, w1) \<Rightarrow>
                           if blog = [] \<or> length blog < 100
                           then (Inr generation_failed_response, w1)
                           else
                             (case save_to_s3 e blog w1 of
                                (Inl x, w2) \<Rightarrow> (Inl x, w2)
                              | (Inr s3_path, w2) \<Rightarrow> (Inr (success_response blog), w2))))))"

text \<open>\<^verbatim>\<open>lambda_handler\<close>: the outer \<^verbatim>\<open>except Exception\<close> answers every exception.\<close>

definition lambda_handler :: "env \<Rightarrow> json \<Rightarrow> world \<Rightarrow> response \<times> world" where
  "lambda_handler e event w =
     (case lambda_handler_try e event w of
        (Inl x, w') \<Rightarrow> (internal_error_response, w')
      | (Inr r, w') \<Rightarrow> (r, w'))"

section \<open>Notions of the specification\<close>

text \<open>A delimiter token of the generation protocol occurs in the text.\<close>

definition has_token :: "pystr \<Rightarrow> bool" where
  "has_token s \<longleftrightarrow>
     sublist (str ''<s>'') s \<or> sublist (str ''</s>'') s \<or>
     sublist (str ''[INST]'') s \<or> sublist (str ''[/INST]'') s"

text \<open>A text without leading and trailing whitespace.\<close>

definition stripped :: "pystr \<Rightarrow> bool" where
  "stripped s \<longleftrightarrow> s = [] \<or> (\<not> is_space (hd s) \<and> \<not> is_space (last s))"

text \<open>The number of positions of a text at which a given text starts.\<close>

fun occurrences :: "pystr \<Rightarrow> pystr \<Rightarrow> nat" where
  "occurrences t [] = (if t = [] then 1 else 0)"
| "occurrences t (c # cs) = (if prefix t (c # cs) then 1 else 0) + occurrences t cs"

section \<open>Sample requests and services\<close>

text \<open>
  Concrete inputs at which the theorems below are instantiated: a request, replies of
  the generation service, a decoder that knows just these texts, and services that
  answer as told.
\<close>

definition sample_topic :: pystr where
  "sample_topic = str ''benefits of remote work''"

definition sample_request :: pystr where
  \<open>sample_request = str ''{"topic": "benefits of remote work"}''\<close>

definition blank_request :: pystr where
  \<open>blank_request = str ''{"topic": " "}''\<close>

definition empty_request :: pystr where
  \<open>empty_request = str ''{"topic": ""}''\<close>

definition sample_generation :: pystr where
  "sample_generation = str '' <s># Remote work: no commute, flexible hours, fewer interruptions, a wider choice of employers and more time at home.</s> ''"

definition sample_reply :: pystr where
  \<open>sample_reply = str ''{"generation": " <s># Remote work: no commute, flexible hours, fewer interruptions, a wider choice of employers and more time at home.</s> "}''\<close>

definition short_reply :: pystr where
  \<open>short_reply = str ''{"generation": "<s>Too short.</s>"}''\<close>

definition bare_reply :: pystr where
  \<open>bare_reply = str ''{"stop_reason": "length"}''\<close>

definition sample_parse :: "pystr \<Rightarrow> json option" where
  "sample_parse =
     map_of
       [(str ''{}'', JObject []),
        (sample_request, JObject [(str ''topic'', JString sample_topic)]),
        (blank_request, JObject [(str ''topic'', JString (str '' ''))]),
        (empty_request, JObject [(str ''topic'', JString [])]),
        (sample_reply, JObject [(str ''generation'', JString sample_generation)]),
        (short_reply, JObject [(str ''generation'', JString (str ''<s>Too short.</s>''))]),
        (bare_reply, JObject [(str ''stop_reason'', JString (str ''length''))])]"

definition sample_env :: "exn + pystr \<Rightarrow> exn option \<Rightarrow> env" where
  "sample_env model_reply store_reply =
     \<lparr>parse_json = sample_parse,
      py_str = (\<lambda>v. []),
      invoke_model = (\<lambda>model_id payload. model_reply),
      put_object = (\<lambda>bucket key data. store_reply),
      timestamp = str ''2024_05_17_093000''\<rparr>"

definition sample_event :: "pystr \<Rightarrow> json" where
  "sample_event text = JObject [(str ''body'', JString text)]"

definition initial_world :: world where
  "initial_world = \<lparr>calls = [], objects = Map.empty\<rparr>"

definition sample_blog :: pystr where
  "sample_blog = str ''# Remote work: no commute, flexible hours, fewer interruptions, a wider choice of employers and more time at home.''"

section \<open>The newline collapse\<close>

lemma nl_run_Nil [simp]: "nl_run [] = 0"
  by (simp add: nl_run_def)

lemma nl_run_Cons [simp]: "nl_run (c # cs) = (if c = NL then Suc (nl_run cs) else 0)"
  by (simp add: nl_run_def)

lemma nl_run_dropWhile [simp]: "nl_run (dropWhile (\<lambda>c. c = NL) s) = 0"
  by (induction s) auto


lemma nl_run_collapse_newlines:
  "nl_run (collapse_newlines s) = (if 3 \<le> nl_run s then 2 else nl_run s)"
proof (induction s rule: collapse_newlines.induct)
  case 1
  show ?case by simp
next
  case (2 c cs)
  show ?case
  proof (cases "3 \<le> nl_run (c # cs)")
    case True
    with 2(1) have "nl_run (collapse_newlines (dropWhile (\<lambda>c. c = NL) cs)) = 0"
      by simp
    with True show ?thesis by simp
  next
    case False
    with 2(2) have "nl_run (collapse_newlines cs) = (if 3 \<le> nl_run cs then 2 else nl_run cs)"
      by simp
    with False show ?thesis by (auto split: if_splits)
  qed
qed

lemma prefix_nl3_run: "prefix [NL, NL, NL] t \<Longrightarrow> 3 \<le> nl_run t"
  by (auto simp: prefix_def)


lemma collapse_newlines_no_triple: "\<not> sublist [NL, NL, NL] (collapse_newlines s)"
proof (induction s rule: collapse_newlines.induct)
  case 1
  show ?case by simp
next
  case (2 c cs)
  have top: "\<not> prefix [NL, NL, NL] (collapse_newlines (c # cs))"
    using prefix_nl3_run [of "collapse_newlines (c # cs)"]
    by (simp only: nl_run_collapse_newlines split: if_splits) auto
  show ?case
  proof (cases "3 \<le> nl_run (c # cs)")
    case True
    let ?d = "dropWhile (\<lambda>c. c = NL) cs"
    from True 2(1) have ih: "\<not> sublist [NL, NL, NL] (collapse_newlines ?d)" by simp
    have "nl_run (NL # collapse_newlines ?d) = 1"
      by (simp add: nl_run_collapse_newlines)
    then have mid: "\<not> prefix [NL, NL, NL] (NL # collapse_newlines ?d)"
      using prefix_nl3_run [of "NL # collapse_newlines ?d"] by auto
    from top True have "\<not> prefix [NL, NL, NL] (NL # NL # collapse_newlines ?d)" by simp
    with mid ih True show ?thesis
      by (simp add: sublist_Cons_right)
  next
    case False
    with 2(2) have ih: "\<not> sublist [NL, NL, NL] (collapse_newlines cs)" by simp
    from top False have "\<not> prefix [NL, NL, NL] (c # collapse_newlines cs)" by simp
    with ih False show ?thesis by (simp add: sublist_Cons_right)
  qed
qed


section \<open>Fixed points of the sanitizer's stages\<close>

lemma remove_s_tokens_fixed:
  "\<not> sublist (str ''<s>'') s \<Longrightarrow> \<not> sublist (str ''</s>'') s \<Longrightarrow> remove_s_tokens s = s"
proof (induction s)
  case Nil
  show ?case by simp
next
  case (Cons c cs)
  from Cons.prems have "\<not> prefix (str ''<s>'') (c # cs)" "\<not> prefix (str ''</s>'') (c # cs)"
    "\<not> sublist (str ''<s>'') cs" "\<not> sublist (str ''</s>'') cs"
    by (simp_all add: sublist_Cons_right)
  with Cons.IH show ?case by simp
qed

lemma remove_inst_tokens_fixed:
  "\<not> sublist (str ''[INST]'') s \<Longrightarrow> \<not> sublist (str ''[/INST]'') s \<Longrightarrow> remove_inst_tokens s = s"
proof (induction s)
  case Nil
  show ?case by simp
next
  case (Cons c cs)
  from Cons.prems have "\<not> prefix (str ''[INST]'') (c # cs)" "\<not> prefix (str ''[/INST]'') (c # cs)"
    "\<not> sublist (str ''[INST]'') cs" "\<not> sublist (str ''[/INST]'') cs"
    by (simp_all add: sublist_Cons_right)
  with Cons.IH show ?case by simp
qed

lemma strip_fixed: "stripped s \<Longrightarrow> strip s = s"
proof (cases "s = []")
  case True
  then show ?thesis by (simp add: strip_def)
next
  case False
  assume "stripped s"
  with False have h: "\<not> is_space (hd s)" and l: "\<not> is_space (last s)"
    by (simp_all add: stripped_def)
  from h have 1: "dropWhile is_space s = s"
    by (simp add: dropWhile_eq_self_iff)
  from l False have 2: "dropWhile is_space (rev s) = rev s"
    by (simp add: dropWhile_eq_self_iff hd_rev)
  from 1 2 show ?thesis by (simp add: strip_def)
qed


lemma NL_space [simp]: "is_space NL"
  by (simp add: is_space_def NL_def)





section \<open>The collapse of a run between other text\<close>

lemma nl_run_append:
  "p \<noteq> [] \<Longrightarrow> last p \<noteq> NL \<Longrightarrow> nl_run (p @ r) = nl_run p"
  unfolding nl_run_def
  by (subst takeWhile_append1 [of "last p"]) simp_all

lemma dropWhile_nl_append:
  "p \<noteq> [] \<Longrightarrow> last p \<noteq> NL \<Longrightarrow>
     dropWhile (\<lambda>c. c = NL) (p @ r) = dropWhile (\<lambda>c. c = NL) p @ r"
  by (rule dropWhile_append1 [of "last p"]) simp_all

lemma collapse_newlines_append:
  "p = [] \<or> last p \<noteq> NL \<Longrightarrow>
     collapse_newlines (p @ r) = collapse_newlines p @ collapse_newlines r"
proof (induction p rule: collapse_newlines.induct)
  case 1
  show ?case by simp
next
  case (2 c cs)
  from 2(3) have l: "last (c # cs) \<noteq> NL" by simp
  have run: "nl_run ((c # cs) @ r) = nl_run (c # cs)"
    by (rule nl_run_append) (use l in simp_all)
  show ?case
  proof (cases "3 \<le> nl_run (c # cs)")
    case True
    let ?d = "dropWhile (\<lambda>c. c = NL) cs"
    from True have cs: "cs \<noteq> []" by (auto split: if_splits)
    with l have lcs: "last cs \<noteq> NL" by simp
    have d: "?d \<noteq> []"
    proof
      assume "?d = []"
      then have "\<forall>x\<in>set cs. x = NL" by (simp only: dropWhile_eq_Nil_conv)
      with cs have "last cs = NL" using last_in_set by blast
      with lcs show False ..
    qed
    obtain u where "cs = u @ ?d" by (metis takeWhile_dropWhile_id)
    with d have "last ?d = last cs" by (metis last_appendR)
    with lcs have "?d = [] \<or> last ?d \<noteq> NL" by simp
    with 2(1) True have ih:
      "collapse_newlines (?d @ r) = collapse_newlines ?d @ collapse_newlines r" by simp
    have dr: "dropWhile (\<lambda>c. c = NL) (cs @ r) = ?d @ r"
      by (rule dropWhile_nl_append) (use cs lcs in simp_all)
    have "collapse_newlines ((c # cs) @ r) = NL # NL # collapse_newlines (?d @ r)"
      using True run dr by (simp del: nl_run_Cons add: nl_run_Cons [symmetric])
    moreover have "collapse_newlines (c # cs) = NL # NL # collapse_newlines ?d"
      using True by simp
    ultimately show ?thesis using ih by simp
  next
    case False
    have e1: "collapse_newlines ((c # cs) @ r) = c # collapse_newlines (cs @ r)"
      using False run by (simp del: nl_run_Cons add: nl_run_Cons [symmetric])
    have e2: "collapse_newlines (c # cs) = c # collapse_newlines cs"
      using False by simp
    have "collapse_newlines (cs @ r) = collapse_newlines cs @ collapse_newlines r"
    proof (cases "cs = []")
      case True
      then show ?thesis by simp
    next
      case ne: False
      with l have "cs = [] \<or> last cs \<noteq> NL" by simp
      with 2(2) False show ?thesis by simp
    qed
    with e1 e2 show ?thesis by simp
  qed
qed

lemma nl_run_replicate: "nl_run (replicate n NL @ q) = n + nl_run q"
  by (induction n) simp_all

lemma dropWhile_replicate_nl:
  "q = [] \<or> hd q \<noteq> NL \<Longrightarrow> dropWhile (\<lambda>c. c = NL) (replicate n NL @ q) = q"
  by (induction n) (auto simp: dropWhile_eq_self_iff)

lemma collapse_newlines_run:
  assumes "3 \<le> n" and "q = [] \<or> hd q \<noteq> NL"
  shows "collapse_newlines (replicate n NL @ q) = NL # NL # collapse_newlines q"
proof -
  from assms(1) obtain m where n: "n = Suc m" by (cases n) auto
  have "3 \<le> nl_run (NL # replicate m NL @ q)"
    using nl_run_replicate [of n q] assms(1) n by simp
  then have "collapse_newlines (NL # replicate m NL @ q) =
      NL # NL # collapse_newlines (dropWhile (\<lambda>c. c = NL) (replicate m NL @ q))"
    by (simp del: nl_run_Cons)
  with assms(2) n show ?thesis by (simp add: dropWhile_replicate_nl)
qed

section \<open>Properties of the sanitizer\<close>

lemma sublist_in_part:
  "sublist t a \<Longrightarrow> sublist t (a @ b)" "sublist t c \<Longrightarrow> sublist t (b @ c)"
  by (metis sublist_append_rightI sublist_order.order_trans,
      metis sublist_append_leftI sublist_order.order_trans)

lemma has_token_parts:
  assumes "\<not> has_token (a @ b @ c)"
  shows "\<not> has_token a" and "\<not> has_token c"
proof -
  have "has_token a \<Longrightarrow> has_token (a @ b @ c)"
    unfolding has_token_def using sublist_in_part(1) by blast
  with assms show "\<not> has_token a" by blast
  have "has_token c \<Longrightarrow> has_token (a @ b @ c)"
    unfolding has_token_def using sublist_in_part(2) [of _ c "a @ b"] by auto
  with assms show "\<not> has_token c" by blast
qed

lemma clean_without_tokens:
  "\<not> has_token s \<Longrightarrow> clean_llama_output s = collapse_newlines (strip s)"
  by (simp add: clean_llama_output_def has_token_def remove_s_tokens_fixed
      remove_inst_tokens_fixed)

lemma stripped_around:
  assumes "p \<noteq> []" "q \<noteq> []" "\<not> is_space (hd p)" "\<not> is_space (last q)"
  shows "stripped (p @ m @ q)"
  using assms by (simp add: stripped_def)

lemma clean_trimmed_run:
  assumes "strip (remove_inst_tokens (remove_s_tokens x)) = p @ replicate n NL @ q"
    and "3 \<le> n" and "p = [] \<or> last p \<noteq> NL" and "q = [] \<or> hd q \<noteq> NL"
  shows "clean_llama_output x = collapse_newlines p @ [NL, NL] @ collapse_newlines q"
  using assms
  by (simp add: clean_llama_output_def collapse_newlines_append collapse_newlines_run)

lemma clean_plain_run:
  assumes "3 \<le> n" and "\<not> has_token (p @ replicate n NL @ q)"
    and "p \<noteq> []" "stripped p" and "q \<noteq> []" "stripped q"
  shows "clean_llama_output (p @ replicate n NL @ q) =
           clean_llama_output p @ [NL, NL] @ clean_llama_output q"
proof -
  from assms(3,4) have p: "\<not> is_space (hd p)" "\<not> is_space (last p)"
    by (simp_all add: stripped_def)
  from assms(5,6) have q: "\<not> is_space (hd q)" "\<not> is_space (last q)"
    by (simp_all add: stripped_def)
  from p(2) q(1) have b: "p = [] \<or> last p \<noteq> NL" "q = [] \<or> hd q \<noteq> NL" by auto
  have s: "strip (p @ replicate n NL @ q) = p @ replicate n NL @ q"
    by (rule strip_fixed) (rule stripped_around [OF assms(3) assms(5) p(1) q(2)])
  from has_token_parts [OF assms(2)] have
    "clean_llama_output p = collapse_newlines p" "clean_llama_output q = collapse_newlines q"
    by (simp_all add: clean_without_tokens strip_fixed assms(4,6))
  moreover have "clean_llama_output (p @ replicate n NL @ q) =
      collapse_newlines p @ [NL, NL] @ collapse_newlines q"
    using assms(1,2) b s
    by (simp add: clean_without_tokens collapse_newlines_append collapse_newlines_run)
  ultimately show ?thesis by simp
qed

lemma four_newlines: "replicate 4 NL = [NL, NL, NL, NL]"
  by (simp add: numeral_eq_Suc)

text \<open>
  Claim C9, as stated: the output contains no run of three or more consecutive
  newlines, every such run in the input being collapsed to exactly two. A run of three
  newlines at the start of the input is not collapsed to two: the trim, which comes
  before the collapse, removes it.
\<close>

theorem leading_run_is_removed:
  "sublist [NL, NL, NL] (str ''\<newline>\<newline>\<newline>a'') \<and>
   clean_llama_output (str ''\<newline>\<newline>\<newline>a'') = str ''a''"
  by (simp add: str_def clean_llama_output_def strip_def is_space_def nl_run_def NL_def
      sublist_Cons_right)

text \<open>
  Claim C9, amended. For every input string the output of the sanitizer contains no run
  of three or more consecutive newlines. The runs that are collapsed are those of the
  text that is left when the tokens are removed and the ends are trimmed: a run of
  three or more newlines between other parts of that text is exactly two newlines in
  the output. So it is for a run in an input without tokens that stands between two
  non-empty texts without leading or trailing whitespace.
\<close>

theorem sanitizer_newline_runs:
  "\<not> sublist [NL, NL, NL] (clean_llama_output raw) \<and>
   (strip (remove_inst_tokens (remove_s_tokens x)) = p @ replicate n NL @ q \<and> 3 \<le> n \<and>
    (p = [] \<or> last p \<noteq> NL) \<and> (q = [] \<or> hd q \<noteq> NL) \<longrightarrow>
      clean_llama_output x = collapse_newlines p @ [NL, NL] @ collapse_newlines q) \<and>
   (3 \<le> n \<and> \<not> has_token (p @ replicate n NL @ q) \<and>
    p \<noteq> [] \<and> stripped p \<and> q \<noteq> [] \<and> stripped q \<longrightarrow>
      clean_llama_output (p @ replicate n NL @ q) =
        clean_llama_output p @ [NL, NL] @ clean_llama_output q)"
  using collapse_newlines_no_triple [of "strip (remove_inst_tokens (remove_s_tokens raw))"]
    clean_trimmed_run [of x p n q] clean_plain_run [of n p q]
  by (simp add: clean_llama_output_def [of raw])

text \<open>
  The theorem of claim C9 at a run of four newlines between two letters, once inside
  tokens and blanks and once bare.
\<close>

theorem sanitizer_newline_runs_witness:
  "clean_llama_output (str '' <s>a\<newline>\<newline>\<newline>\<newline>b</s> '') =
     str ''a\<newline>\<newline>b'' \<and>
   clean_llama_output (str ''a\<newline>\<newline>\<newline>\<newline>b'') =
     str ''a\<newline>\<newline>b'' \<and>
   \<not> sublist [NL, NL, NL] (clean_llama_output (str ''a\<newline>\<newline>\<newline>\<newline>b''))"
proof -
  let ?x = "str '' <s>a\<newline>\<newline>\<newline>\<newline>b</s> ''"
  let ?p = "str ''a''" and ?q = "str ''b''"
  have e: "?p @ replicate 4 NL @ ?q = str ''a\<newline>\<newline>\<newline>\<newline>b''"
    unfolding four_newlines by (simp add: str_def NL_def)
  have h1: "strip (remove_inst_tokens (remove_s_tokens ?x)) = ?p @ replicate 4 NL @ ?q"
    unfolding four_newlines by (simp add: str_def strip_def is_space_def NL_def)
  have h2: "(3::nat) \<le> 4" by simp
  have h3: "?p = [] \<or> last ?p \<noteq> NL" "?q = [] \<or> hd ?q \<noteq> NL"
    by (simp_all add: str_def NL_def)
  have h4: "\<not> has_token (?p @ replicate 4 NL @ ?q)"
    unfolding four_newlines
    by (simp add: has_token_def str_def NL_def sublist_Cons_right)
  have h5: "?p \<noteq> []" "stripped ?p" "?q \<noteq> []" "stripped ?q"
    by (simp_all add: stripped_def str_def is_space_def)
  have c: "collapse_newlines ?p = ?p" "collapse_newlines ?q = ?q"
    "clean_llama_output ?p = ?p" "clean_llama_output ?q = ?q"
    by (simp_all add: str_def NL_def clean_llama_output_def strip_def is_space_def)
  have r: "?p @ [NL, NL] @ ?q = str ''a\<newline>\<newline>b''"
    by (simp add: str_def NL_def)
  note t = sanitizer_newline_runs [of "?p @ replicate 4 NL @ ?q" ?x ?p 4 ?q]
  have 1: "clean_llama_output ?x = collapse_newlines ?p @ [NL, NL] @ collapse_newlines ?q"
    by (rule t [THEN conjunct2, THEN conjunct1, THEN mp]) (intro conjI h1 h2 h3)
  have 2: "clean_llama_output (?p @ replicate 4 NL @ ?q) =
      clean_llama_output ?p @ [NL, NL] @ clean_llama_output ?q"
    by (rule t [THEN conjunct2, THEN conjunct2, THEN mp]) (intro conjI h2 h4 h5)
  have 3: "\<not> sublist [NL, NL, NL] (clean_llama_output (?p @ replicate 4 NL @ ?q))"
    by (rule t [THEN conjunct1])
  have a1: "clean_llama_output ?x = str ''a\<newline>\<newline>b''"
    using 1 unfolding c r .
  have a2: "clean_llama_output (str ''a\<newline>\<newline>\<newline>\<newline>b'') =
      str ''a\<newline>\<newline>b''"
    using 2 unfolding c r e .
  have a3: "\<not> sublist [NL, NL, NL]
      (clean_llama_output (str ''a\<newline>\<newline>\<newline>\<newline>b''))"
    using 3 unfolding e .
  from a1 a2 a3 show ?thesis by (intro conjI)
qed





section \<open>Properties of the prompt builder\<close>

lemma occurrences_at_start: "1 \<le> occurrences t (t @ q)"
proof (cases "t @ q")
  case Nil
  then show ?thesis by simp
next
  case (Cons a l)
  then have "prefix t (a # l)" by (metis prefixI)
  with Cons show ?thesis by simp
qed

lemma occurrences_embedded: "1 \<le> occurrences t (p @ t @ q)"
proof (induction p)
  case Nil
  show ?case using occurrences_at_start by simp
next
  case (Cons c p)
  then show ?case by simp
qed

lemma build_prompt_parts:
  "build_prompt topic = tl prompt_head @ topic @ butlast prompt_tail"
  by (simp add: build_prompt_def strip_def prompt_head_def prompt_tail_def str_def is_space_def)

text \<open>
  Claim C5, as stated: for every non-empty topic the prompt contains the topic exactly
  once. The topic \<^verbatim>\<open>blog\<close> occurs four times in its prompt: three times in the fixed
  text and once where it is inserted.
\<close>

theorem topic_occurs_more_than_once:
  "str ''blog'' \<noteq> [] \<and> occurrences (str ''blog'') (build_prompt (str ''blog'')) = 4"
  by (simp add: build_prompt_parts prompt_head_def prompt_tail_def str_def)

text \<open>
  Claim C5, amended. For every topic the prompt is the fixed text before the
  placeholder, the topic verbatim, and the fixed text behind it, without the outer
  newlines; so the topic occurs in the prompt at least once.
\<close>

theorem build_prompt_embeds_topic:
  "[NL] @ build_prompt topic @ [NL] = prompt_head @ topic @ prompt_tail \<and>
   sublist topic (build_prompt topic) \<and>
   1 \<le> occurrences topic (build_prompt topic)"
proof -
  have "[NL] @ tl prompt_head = prompt_head" "butlast prompt_tail @ [NL] = prompt_tail"
    by (simp_all add: prompt_head_def prompt_tail_def str_def NL_def)
  then have "[NL] @ build_prompt topic @ [NL] = prompt_head @ topic @ prompt_tail"
    by (metis build_prompt_parts append.assoc)
  moreover have "sublist topic (build_prompt topic)"
    unfolding build_prompt_parts by (rule sublist_appendI)
  moreover have "1 \<le> occurrences topic (build_prompt topic)"
    unfolding build_prompt_parts by (rule occurrences_embedded)
  ultimately show ?thesis by blast
qed

section \<open>The sample requests and services, evaluated\<close>

lemmas sample_texts =
  sample_topic_def sample_request_def blank_request_def empty_request_def
  sample_generation_def sample_reply_def short_reply_def bare_reply_def str_def

lemma parse_sample_request:
  "sample_parse sample_request = Some (JObject [(str ''topic'', JString sample_topic)])"
  by (simp add: sample_parse_def sample_texts)

lemma parse_blank_request:
  "sample_parse blank_request = Some (JObject [(str ''topic'', JString (str '' ''))])"
  by (simp add: sample_parse_def sample_texts)

lemma parse_empty_request:
  "sample_parse empty_request = Some (JObject [(str ''topic'', JString [])])"
  by (simp add: sample_parse_def sample_texts)

lemma parse_sample_reply:
  "sample_parse sample_reply = Some (JObject [(str ''generation'', JString sample_generation)])"
  by (simp add: sample_parse_def sample_texts)

lemma parse_bare_reply:
  "sample_parse bare_reply = Some (JObject [(str ''stop_reason'', JString (str ''length''))])"
  by (simp add: sample_parse_def sample_texts)

lemma parse_garbage: "sample_parse (str ''topic=remote work'') = None"
  by (simp add: sample_parse_def sample_texts)

lemma parse_json_sample_env: "parse_json (sample_env model_reply store_reply) = sample_parse"
  by (simp add: sample_env_def)

lemma clean_sample_generation: "clean_llama_output sample_generation = sample_blog"
  by (simp add: sample_generation_def sample_blog_def str_def clean_llama_output_def
      strip_def is_space_def nl_run_def NL_def)

lemma length_sample_blog: "length sample_blog = 114"
  by (simp add: sample_blog_def str_def)

lemma utf8_encode_ascii: "\<forall>c\<in>set s. c < 128 \<Longrightarrow> utf8_encode s = Inr s"
  by (induction s) (simp_all add: utf8_bytes_def)

lemma utf8_sample_blog: "utf8_encode sample_blog = Inr sample_blog"
  by (rule utf8_encode_ascii) (simp add: sample_blog_def str_def)

lemma body_of_sample_event:
  "py_get (sample_event text) (str ''body'') (JString (str ''{}'')) = Inr (JString text)"
  by (simp add: sample_event_def)

lemma topic_of_sample_request:
  "json_loads (sample_env model_reply store_reply) (JString sample_request)
     = Inr (JObject [(str ''topic'', JString sample_topic)])"
  by (simp add: parse_json_sample_env parse_sample_request)

lemma get_topic:
  "py_get (JObject [(str ''topic'', v)]) (str ''topic'') JNull = Inr v"
  by simp

lemma truthy_sample_topic: "truthy (JString sample_topic)"
  by (simp add: sample_topic_def str_def)

lemma generate_sample_blog:
  "generate_blog (sample_env (Inr sample_reply) store_reply) (JString sample_topic) w =
     (sample_blog,
      w\<lparr>calls := calls w @
         [InvokeModel MODEL_ID (generation_payload (build_prompt sample_topic))]\<rparr>)"
  by (simp add: generate_blog_def generate_blog_try_def sample_env_def Let_def
      parse_sample_reply clean_sample_generation)

lemma sample_artifact_key:
  "artifact_key (sample_env model_reply store_reply) = str ''blog_output/2024_05_17_093000.txt''"
  by (simp add: artifact_key_def sample_env_def S3_PREFIX_def str_def)

lemma handler_when_store_denies:
  "lambda_handler (sample_env (Inr sample_reply) (Some (ServiceError (str ''AccessDenied''))))
       (sample_event sample_request) initial_world =
     (internal_error_response,
      \<lparr>calls = [InvokeModel MODEL_ID (generation_payload (build_prompt sample_topic)),
                PutObject S3_BUCKET (str ''blog_output/2024_05_17_093000.txt'') sample_blog],
       objects = Map.empty\<rparr>)"
proof -
  let ?e = "sample_env (Inr sample_reply) (Some (ServiceError (str ''AccessDenied'')))"
  have ne: "sample_blog \<noteq> []" using length_sample_blog by auto
  have t: "sample_topic \<noteq> []" using truthy_sample_topic by simp
  have s: "save_to_s3 ?e sample_blog w =
     (Inl (ServiceError (str ''AccessDenied'')),
      w\<lparr>calls := calls w @
         [PutObject S3_BUCKET (str ''blog_output/2024_05_17_093000.txt'') sample_blog]\<rparr>)" for w
    by (simp add: save_to_s3_def Let_def utf8_sample_blog sample_artifact_key)
       (simp add: sample_env_def)
  show ?thesis
    by (simp add: lambda_handler_def lambda_handler_try_def body_of_sample_event
        parse_json_sample_env parse_sample_request t generate_sample_blog length_sample_blog
        ne s initial_world_def)
qed

section \<open>Properties of the generation step\<close>

lemma generate_blog_world:
  "snd (generate_blog e topic w) =
     w\<lparr>calls := calls w @
        [InvokeModel MODEL_ID (generation_payload (build_prompt (py_format e topic)))]\<rparr>"
  by (simp add: generate_blog_def Let_def split: sum.split)

text \<open>
  Claim C6. \<^verbatim>\<open>generate_blog\<close> returns a string on every path. Whenever the body of its
  \<^verbatim>\<open>try\<close> raises, and so whenever the call of the generation service raises, the result
  is the empty string; and when the decoded response is a dict without the key
  \<^verbatim>\<open>generation\<close>, the result is the empty string as well.
\<close>

theorem generation_failure_is_swallowed:
  "(generate_blog_try e (generation_payload (build_prompt (py_format e topic))) = Inl x
      \<longrightarrow> fst (generate_blog e topic w) = []) \<and>
   (invoke_model e MODEL_ID (generation_payload (build_prompt (py_format e topic))) = Inl x
      \<longrightarrow> fst (generate_blog e topic w) = []) \<and>
   (invoke_model e MODEL_ID (generation_payload (build_prompt (py_format e topic))) = Inr reply
      \<and> parse_json e reply = Some (JObject members)
      \<and> map_of members (str ''generation'') = None
      \<longrightarrow> fst (generate_blog e topic w) = [])"
  by (auto simp: generate_blog_def generate_blog_try_def Let_def clean_llama_output_def strip_def)

text \<open>
  The theorem of claim C6 at a service that times out, and at a service whose response
  has no \<^verbatim>\<open>generation\<close> field.
\<close>

theorem generation_failure_is_swallowed_witness:
  "invoke_model (sample_env (Inl (ServiceError (str ''ReadTimeout''))) None) MODEL_ID
       (generation_payload (build_prompt sample_topic))
     = Inl (ServiceError (str ''ReadTimeout'')) \<and>
   fst (generate_blog (sample_env (Inl (ServiceError (str ''ReadTimeout''))) None)
          (JString sample_topic) initial_world) = [] \<and>
   parse_json (sample_env (Inr bare_reply) None) bare_reply
     = Some (JObject [(str ''stop_reason'', JString (str ''length''))]) \<and>
   fst (generate_blog (sample_env (Inr bare_reply) None)
          (JString sample_topic) initial_world) = []"
proof -
  let ?f = "sample_env (Inl (ServiceError (str ''ReadTimeout''))) None"
  let ?b = "sample_env (Inr bare_reply) None"
  let ?p = "generation_payload (build_prompt sample_topic)"
  have f1: "invoke_model ?f MODEL_ID ?p = Inl (ServiceError (str ''ReadTimeout''))"
    by (simp add: sample_env_def)
  then have f2: "generate_blog_try ?f ?p = Inl (ServiceError (str ''ReadTimeout''))"
    by (simp add: generate_blog_try_def)
  have b1: "invoke_model ?b MODEL_ID ?p = Inr bare_reply"
    by (simp add: sample_env_def)
  have b2: "parse_json ?b bare_reply = Some (JObject [(str ''stop_reason'', JString (str ''length''))])"
    by (simp add: parse_json_sample_env parse_bare_reply)
  have b3: "map_of [(str ''stop_reason'', JString (str ''length''))] (str ''generation'') = None"
    by (simp add: str_def)
  from f1 f2
    generation_failure_is_swallowed
      [where e = ?f and topic = "JString sample_topic" and w = initial_world
         and x = "ServiceError (str ''ReadTimeout'')"]
  have 1: "fst (generate_blog ?f (JString sample_topic) initial_world) = []" by simp
  from b1 b2 b3
    generation_failure_is_swallowed
      [where e = ?b and topic = "JString sample_topic" and w = initial_world
         and reply = bare_reply
         and members = "[(str ''stop_reason'', JString (str ''length''))]"]
  have 2: "fst (generate_blog ?b (JString sample_topic) initial_world) = []" by simp
  from f1 1 b2 2 show ?thesis by blast
qed

section \<open>Properties of the request handler\<close>

lemma error_bodies:
  \<open>json_dumps_error (str ''Missing 'topic' in request body'')
     = str ''{"error": "Missing 'topic' in request body"}''\<close>
  \<open>json_dumps_error (str ''Blog generation failed or returned empty content.'')
     = str ''{"error": "Blog generation failed or returned empty content."}''\<close>
  \<open>json_dumps_error (str ''Internal server error.'')
     = str ''{"error": "Internal server error."}''\<close>
  by (simp_all add: json_dumps_error_def str_def)

text \<open>
  Claim C3. When the body of the request decodes to a dict in which the key
  \<^verbatim>\<open>topic\<close> is missing or holds the empty string, the handler answers 400 with the
  JSON text of the error \<^verbatim>\<open>Missing 'topic' in request body\<close>, and the world is as
  before: neither service has been called.
\<close>

theorem missing_topic_answers_400:
  assumes \<open>py_get event (str ''body'') (JString (str ''{}'')) = Inr raw_body\<close>
    and \<open>json_loads e raw_body = Inr (JObject members)\<close>
    and \<open>map_of members (str ''topic'') = None \<or>
         map_of members (str ''topic'') = Some (JString [])\<close>
  shows \<open>lambda_handler e event w =
           (\<lparr>statusCode = 400, headers = cors_origin,
             body = str ''{"error": "Missing 'topic' in request body"}''\<rparr>, w)\<close>
  using assms
  by (auto simp: lambda_handler_def lambda_handler_try_def missing_topic_response_def
      error_bodies)

text \<open>The theorem of claim C3 at a request with the empty topic.\<close>

theorem missing_topic_answers_400_witness:
  \<open>json_loads (sample_env (Inr sample_reply) None) (JString empty_request)
     = Inr (JObject [(str ''topic'', JString [])]) \<and>
   lambda_handler (sample_env (Inr sample_reply) None) (sample_event empty_request) initial_world =
     (\<lparr>statusCode = 400, headers = cors_origin,
       body = str ''{"error": "Missing 'topic' in request body"}''\<rparr>, initial_world)\<close>
proof -
  let ?e = "sample_env (Inr sample_reply) None"
  have h1: "py_get (sample_event empty_request) (str ''body'') (JString (str ''{}''))
              = Inr (JString empty_request)"
    by (rule body_of_sample_event)
  have h2: "json_loads ?e (JString empty_request) = Inr (JObject [(str ''topic'', JString [])])"
    by (simp add: parse_json_sample_env parse_empty_request)
  have h3: "map_of [(str ''topic'', JString [])] (str ''topic'') = None \<or>
            map_of [(str ''topic'', JString [])] (str ''topic'') = Some (JString [])"
    by simp
  from h2 missing_topic_answers_400 [OF h1 h2 h3] show ?thesis by blast
qed

text \<open>
  Claim C7. When decoding the body of the request raises, the handler answers 500 with
  the JSON text of the error \<^verbatim>\<open>Internal server error.\<close>, not 400.
\<close>

theorem malformed_body_answers_500:
  assumes \<open>py_get event (str ''body'') (JString (str ''{}'')) = Inr raw_body\<close>
    and \<open>json_loads e raw_body = Inl x\<close>
  shows \<open>lambda_handler e event w =
           (\<lparr>statusCode = 500, headers = cors_full,
             body = str ''{"error": "Internal server error."}''\<rparr>, w)\<close>
  using assms
  by (simp add: lambda_handler_def lambda_handler_try_def internal_error_response_def
      error_bodies)

text \<open>The theorem of claim C7 at a body that is no JSON text.\<close>

theorem malformed_body_answers_500_witness:
  \<open>json_loads (sample_env (Inr sample_reply) None) (JString (str ''topic=remote work''))
     = Inl JSONDecodeError \<and>
   lambda_handler (sample_env (Inr sample_reply) None)
       (sample_event (str ''topic=remote work'')) initial_world =
     (\<lparr>statusCode = 500, headers = cors_full,
       body = str ''{"error": "Internal server error."}''\<rparr>, initial_world)\<close>
proof -
  let ?e = "sample_env (Inr sample_reply) None"
  have h1: "py_get (sample_event (str ''topic=remote work'')) (str ''body'') (JString (str ''{}''))
              = Inr (JString (str ''topic=remote work''))"
    by (rule body_of_sample_event)
  have h2: "json_loads ?e (JString (str ''topic=remote work'')) = Inl JSONDecodeError"
    by (simp add: parse_json_sample_env parse_garbage)
  from h2 malformed_body_answers_500 [OF h1 h2] show ?thesis by blast
qed

text \<open>
  Claim C2. When the request has a topic and the text that \<^verbatim>\<open>generate_blog\<close> returns,
  the sanitized text or the empty string of a failed generation, is shorter than 100
  characters, the handler answers 500 with the JSON text of the error
  \<^verbatim>\<open>Blog generation failed or returned empty content.\<close>; the only call made is the one
  to the generation service, and the objects of the store are as before.
\<close>

theorem short_generation_answers_500:
  assumes \<open>py_get event (str ''body'') (JString (str ''{}'')) = Inr raw_body\<close>
    and \<open>json_loads e raw_body = Inr parsed_body\<close>
    and \<open>py_get parsed_body (str ''topic'') JNull = Inr topic\<close>
    and \<open>truthy topic\<close>
    and \<open>length (fst (generate_blog e topic w)) < 100\<close>
  shows \<open>lambda_handler e event w =
           (\<lparr>statusCode = 500, headers = cors_full,
             body = str ''{"error": "Blog generation failed or returned empty content."}''\<rparr>,
            w\<lparr>calls := calls w @
               [InvokeModel MODEL_ID (generation_payload (build_prompt (py_format e topic)))]\<rparr>)\<close>
proof -
  obtain blog w1 where g: "generate_blog e topic w = (blog, w1)"
    by (cases "generate_blog e topic w")
  with generate_blog_world [of e topic w]
  have w1: "w1 = w\<lparr>calls := calls w @
        [InvokeModel MODEL_ID (generation_payload (build_prompt (py_format e topic)))]\<rparr>"
    by simp
  from g assms(5) have "length blog < 100" by simp
  with assms(1-4) g w1 show ?thesis
    by (simp add: lambda_handler_def lambda_handler_try_def generation_failed_response_def
        error_bodies)
qed

text \<open>The theorem of claim C2 at a generation service that times out.\<close>

theorem short_generation_answers_500_witness:
  \<open>fst (generate_blog (sample_env (Inl (ServiceError (str ''ReadTimeout''))) None)
          (JString sample_topic) initial_world) = [] \<and>
   lambda_handler (sample_env (Inl (ServiceError (str ''ReadTimeout''))) None)
       (sample_event sample_request) initial_world =
     (\<lparr>statusCode = 500, headers = cors_full,
       body = str ''{"error": "Blog generation failed or returned empty content."}''\<rparr>,
      \<lparr>calls = [InvokeModel MODEL_ID (generation_payload (build_prompt sample_topic))],
       objects = Map.empty\<rparr>)\<close>
proof -
  let ?e = "sample_env (Inl (ServiceError (str ''ReadTimeout''))) None"
  have g: "fst (generate_blog ?e (JString sample_topic) initial_world) = []"
    by (simp add: generate_blog_def generate_blog_try_def sample_env_def Let_def)
  then have h5: "length (fst (generate_blog ?e (JString sample_topic) initial_world)) < 100"
    by simp
  note short_generation_answers_500
         [OF body_of_sample_event topic_of_sample_request get_topic truthy_sample_topic h5]
  with g show ?thesis by (simp add: initial_world_def)
qed

text \<open>
  Claim C1, as stated: a valid request with a topic and a sanitized text of at least 100
  characters is answered with 200, and an artifact is stored. When the store refuses the
  write, the same request is answered with 500 and nothing is stored.
\<close>

theorem valid_generation_without_200:
  "json_loads (sample_env (Inr sample_reply) (Some (ServiceError (str ''AccessDenied''))))
       (JString sample_request) = Inr (JObject [(str ''topic'', JString sample_topic)]) \<and>
   sample_topic \<noteq> [] \<and>
   fst (generate_blog (sample_env (Inr sample_reply) (Some (ServiceError (str ''AccessDenied''))))
          (JString sample_topic) initial_world) = sample_blog \<and>
   100 \<le> length sample_blog \<and>
   statusCode (fst (lambda_handler
       (sample_env (Inr sample_reply) (Some (ServiceError (str ''AccessDenied''))))
       (sample_event sample_request) initial_world)) = 500 \<and>
   objects (snd (lambda_handler
       (sample_env (Inr sample_reply) (Some (ServiceError (str ''AccessDenied''))))
       (sample_event sample_request) initial_world)) = Map.empty"
  using truthy_sample_topic
  by (simp add: parse_json_sample_env parse_sample_request generate_sample_blog
      length_sample_blog handler_when_store_denies internal_error_response_def)

text \<open>
  Claim C1, amended. When the request has a topic, the sanitized text has at least 100
  characters, the text has a UTF-8 encoding and the write to the store succeeds, the
  handler answers 200 with the sanitized text itself as the body, and the store holds
  the encoded text under the key of the artifact.
\<close>

theorem valid_generation_answers_200:
  assumes "py_get event (str ''body'') (JString (str ''{}'')) = Inr raw_body"
    and "json_loads e raw_body = Inr parsed_body"
    and "py_get parsed_body (str ''topic'') JNull = Inr topic"
    and "truthy topic"
    and "generate_blog e topic w = (blog, w1)"
    and "100 \<le> length blog"
    and "utf8_encode blog = Inr data"
    and "put_object e S3_BUCKET (artifact_key e) data = None"
  shows "fst (lambda_handler e event w) =
           \<lparr>statusCode = 200, headers = cors_full, body = blog\<rparr> \<and>
         objects (snd (lambda_handler e event w)) (S3_BUCKET, artifact_key e) = Some data"
proof -
  from assms(6) have ne: "blog \<noteq> []" "\<not> length blog < 100" by auto
  from assms(7,8) have
    "save_to_s3 e blog w1 =
       (Inr (str ''s3://'' @ S3_BUCKET @ str ''/'' @ artifact_key e),
        w1\<lparr>calls := calls w1 @ [PutObject S3_BUCKET (artifact_key e) data],
           objects := (objects w1)((S3_BUCKET, artifact_key e) \<mapsto> data)\<rparr>)"
    by (simp add: save_to_s3_def Let_def)
  with assms(1-5) ne show ?thesis
    by (simp add: lambda_handler_def lambda_handler_try_def success_response_def)
qed

text \<open>The theorem of claim C1 at services that both succeed.\<close>

theorem valid_generation_answers_200_witness:
  "100 \<le> length sample_blog \<and>
   utf8_encode sample_blog = Inr sample_blog \<and>
   fst (lambda_handler (sample_env (Inr sample_reply) None)
          (sample_event sample_request) initial_world) =
     \<lparr>statusCode = 200, headers = cors_full, body = sample_blog\<rparr> \<and>
   objects (snd (lambda_handler (sample_env (Inr sample_reply) None)
                   (sample_event sample_request) initial_world))
       (S3_BUCKET, str ''blog_output/2024_05_17_093000.txt'') = Some sample_blog"
proof -
  let ?e = "sample_env (Inr sample_reply) None"
  have h6: "100 \<le> length sample_blog" by (simp add: length_sample_blog)
  have h8: "put_object ?e S3_BUCKET (artifact_key ?e) sample_blog = None"
    by (simp add: sample_env_def)
  from valid_generation_answers_200
         [OF body_of_sample_event topic_of_sample_request get_topic truthy_sample_topic
             generate_sample_blog h6 utf8_sample_blog h8, of initial_world]
       h6 utf8_sample_blog
  show ?thesis by (simp add: sample_artifact_key)
qed

text \<open>
  Claim C8. When the sanitized text has at least 100 characters and the write to the
  store raises, the handler answers 500 with the JSON text of the error
  \<^verbatim>\<open>Internal server error.\<close>; the text is not part of the answer, the objects of the
  store are as before, and the generation service and the store have each been called
  exactly once.
\<close>

theorem failed_write_answers_500:
  assumes \<open>py_get event (str ''body'') (JString (str ''{}'')) = Inr raw_body\<close>
    and \<open>json_loads e raw_body = Inr parsed_body\<close>
    and \<open>py_get parsed_body (str ''topic'') JNull = Inr topic\<close>
    and \<open>truthy topic\<close>
    and \<open>generate_blog e topic w = (blog, w1)\<close>
    and \<open>100 \<le> length blog\<close>
    and \<open>utf8_encode blog = Inr data\<close>
    and \<open>put_object e S3_BUCKET (artifact_key e) data = Some x\<close>
  shows \<open>lambda_handler e event w =
           (\<lparr>statusCode = 500, headers = cors_full,
             body = str ''{"error": "Internal server error."}''\<rparr>,
            w\<lparr>calls := calls w @
               [InvokeModel MODEL_ID (generation_payload (build_prompt (py_format e topic))),
                PutObject S3_BUCKET (artifact_key e) data]\<rparr>)\<close>
proof -
  from assms(6) have ne: "blog \<noteq> []" "\<not> length blog < 100" by auto
  from assms(5) generate_blog_world [of e topic w]
  have w1: "w1 = w\<lparr>calls := calls w @
        [InvokeModel MODEL_ID (generation_payload (build_prompt (py_format e topic)))]\<rparr>"
    by simp
  from assms(7,8) have
    "save_to_s3 e blog w1 =
       (Inl x, w1\<lparr>calls := calls w1 @ [PutObject S3_BUCKET (artifact_key e) data]\<rparr>)"
    by (simp add: save_to_s3_def Let_def)
  with assms(1-5) ne w1 show ?thesis
    by (simp add: lambda_handler_def lambda_handler_try_def internal_error_response_def
        error_bodies)
qed

text \<open>The theorem of claim C8 at a store that denies access.\<close>

theorem failed_write_answers_500_witness:
  \<open>100 \<le> length sample_blog \<and>
   lambda_handler (sample_env (Inr sample_reply) (Some (ServiceError (str ''AccessDenied''))))
       (sample_event sample_request) initial_world =
     (\<lparr>statusCode = 500, headers = cors_full,
       body = str ''{"error": "Internal server error."}''\<rparr>,
      \<lparr>calls = [InvokeModel MODEL_ID (generation_payload (build_prompt sample_topic)),
                PutObject S3_BUCKET (str ''blog_output/2024_05_17_093000.txt'') sample_blog],
       objects = Map.empty\<rparr>)\<close>
proof -
  let ?e = "sample_env (Inr sample_reply) (Some (ServiceError (str ''AccessDenied'')))"
  have h6: "100 \<le> length sample_blog" by (simp add: length_sample_blog)
  have h8: "put_object ?e S3_BUCKET (artifact_key ?e) sample_blog
              = Some (ServiceError (str ''AccessDenied''))"
    by (simp add: sample_env_def)
  from failed_write_answers_500
         [OF body_of_sample_event topic_of_sample_request get_topic truthy_sample_topic
             generate_sample_blog h6 utf8_sample_blog h8, of initial_world]
       h6
  show ?thesis by (simp add: initial_world_def sample_artifact_key)
qed

text \<open>
  Claim C10. When the topic of the request is a non-empty string of whitespace
  characters only, the handler does not answer 400: it calls the generation service with
  the prompt built from that topic.
\<close>

theorem whitespace_topic_is_accepted:
  assumes "py_get event (str ''body'') (JString (str ''{}'')) = Inr raw_body"
    and "json_loads e raw_body = Inr (JObject members)"
    and "map_of members (str ''topic'') = Some (JString t)"
    and "t \<noteq> []"
    and "\<forall>c\<in>set t. is_space c"
  shows "statusCode (fst (lambda_handler e event w)) \<noteq> 400 \<and>
         prefix (calls w @ [InvokeModel MODEL_ID (generation_payload (build_prompt t))])
                (calls (snd (lambda_handler e event w)))"
proof -
  obtain blog w1 where g: "generate_blog e (JString t) w = (blog, w1)"
    by (cases "generate_blog e (JString t) w")
  with generate_blog_world [of e "JString t" w]
  have w1: "calls w1 = calls w @ [InvokeModel MODEL_ID (generation_payload (build_prompt t))]"
    by simp
  obtain r w2 where s: "save_to_s3 e blog w1 = (r, w2)"
    by (cases "save_to_s3 e blog w1")
  then have w2: "prefix (calls w1) (calls w2)"
    by (auto simp: save_to_s3_def Let_def split: sum.splits option.splits)
  from assms(1-4) g s w1 w2 show ?thesis
    by (cases r)
       (auto simp: lambda_handler_def lambda_handler_try_def generation_failed_response_def
          internal_error_response_def success_response_def)
qed

text \<open>The theorem of claim C10 at the topic of one blank.\<close>

theorem whitespace_topic_is_accepted_witness:
  "str '' '' = [32] \<and> is_space 32 \<and>
   statusCode (fst (lambda_handler (sample_env (Inr sample_reply) None)
                      (sample_event blank_request) initial_world)) \<noteq> 400 \<and>
   prefix [InvokeModel MODEL_ID (generation_payload (build_prompt (str '' '')))]
     (calls (snd (lambda_handler (sample_env (Inr sample_reply) None)
                    (sample_event blank_request) initial_world)))"
proof -
  let ?e = "sample_env (Inr sample_reply) None"
  have h2: "json_loads ?e (JString blank_request)
              = Inr (JObject [(str ''topic'', JString (str '' ''))])"
    by (simp add: parse_json_sample_env parse_blank_request)
  have h3: "map_of [(str ''topic'', JString (str '' ''))] (str ''topic'')
              = Some (JString (str '' ''))"
    by simp
  have h4: "str '' '' \<noteq> []" by (simp add: str_def)
  have h5: "\<forall>c\<in>set (str '' ''). is_space c" by (simp add: str_def is_space_def)
  have h6: "str '' '' = [32]" "is_space 32" by (simp_all add: str_def is_space_def)
  from whitespace_topic_is_accepted [OF body_of_sample_event h2 h3 h4 h5, of initial_world] h6
  show ?thesis by (simp add: initial_world_def)
qed

end
